theory Spec2Isabelle
  imports Complex_Main "HOL-Library.Sublist" "HOL-Library.Log_Nat"
begin

section \<open>The snapshot inventory query of \<open>proxmox_snap_info.py\<close>\<close>

text \<open>
  The module resolves an instance identifier, fetches the instance's snapshot list from
  the Proxmox API and keeps the names of the snapshots that pass a name-prefix test and
  an age test. The API client (\<open>ProxmoxSnapAnsible\<close>) and the wall clock
  (\<open>time.time()\<close>) are outside the module: they are parameters of the model.

  Numbers: \<open>time.time()\<close> returns a float and line 150 divides with true division
  (\<open>from __future__ import division\<close>). Line 150 is read twice here. \<open>main_loop_body\<close>
  and \<open>main_loop\<close> read it in exact arithmetic; \<open>main_loop_body_double\<close> and
  \<open>main_loop_double\<close> read it as Python computes it, each operation rounded to a
  double. The two readings differ only where the age is within a second above
  \<open>older_than\<close> days (\<open>main_loop_body_double_exact\<close>); what is said about the age
  boundary is said of the second reading.
\<close>

subsection \<open>Values\<close>

text \<open>
  The local \<open>vmid\<close> holds the \<open>vmid\<close> parameter (a \<open>str\<close> or \<open>None\<close>) and is
  rebound to whatever \<open>get_vmid\<close> returns, so it is a dynamically typed value.
  \<open>truthy\<close> is Python's truth test, as in \<open>not vmid\<close> and \<open>and hostname\<close>.
\<close>

datatype pyval = PNone | PStr string | PInt int

fun truthy :: "pyval \<Rightarrow> bool" where
  "truthy PNone = False"
| "truthy (PStr s) = (s \<noteq> [])"
| "truthy (PInt i) = (i \<noteq> 0)"

text \<open>
  One entry of the snapshot list is a dict; the module reads the keys \<open>"name"\<close> and
  \<open>"snaptime"\<close>. A missing key is \<open>None\<close> here and a \<open>KeyError\<close> when it is read.
\<close>

record snapshot =
  name :: "string option"
  snaptime :: "real option"

text \<open>\<open>module.params\<close>, with the defaults of the argument spec already applied.\<close>

record module_params =
  vmid :: pyval
  hostname :: pyval
  timeout :: int
  snapname :: "string option"
  older_than :: int

text \<open>The keyword arguments of \<open>module.exit_json\<close>; an argument not given is \<open>None\<close>.\<close>

record exit_result =
  changed :: bool
  msg :: "string option"
  results :: "string list option"

text \<open>
  How a run ends: \<open>exit_json\<close>, the \<open>fail_json\<close> of the missing import, an exception of
  the API client (propagated as it is), or a \<open>KeyError\<close> of a dict read.
\<close>

datatype 'e outcome =
    ExitJson exit_result
  | FailJsonMissingRequiredLib string
  | Raised 'e
  | KeyError string

text \<open>
  The API client object: \<open>proxmox.get_vmid(hostname)\<close>, \<open>proxmox.get_vm(vmid)\<close> and
  \<open>proxmox.snapshot(vm, vmid).get()\<close>. Each call returns a value or raises.
\<close>

record ('e, 'vm) proxmox =
  get_vmid :: "pyval \<Rightarrow> 'e + pyval"
  get_vm :: "pyval \<Rightarrow> 'e + 'vm"
  snapshot_get :: "'vm \<Rightarrow> pyval \<Rightarrow> 'e + snapshot list option"

subsection \<open>\<open>get_proxmox_snapshotlist\<close> (lines 98 to 110)\<close>

definition vmid_not_fetched :: exit_result where
  "vmid_not_fetched =
     \<lparr>changed = False, msg = Some ''Vmid could not be fetched'', results = None\<rparr>"

definition snapshots_not_fetched :: exit_result where
  "snapshots_not_fetched =
     \<lparr>changed = False, msg = Some ''Snapshots could not be fetched'', results = None\<rparr>"

text \<open>Lines 100 to 103: the \<open>if\<close>/\<open>elif\<close> that settles the local \<open>vmid\<close>.\<close>

definition resolve_vmid ::
  "('e, 'vm) proxmox \<Rightarrow> pyval \<Rightarrow> pyval \<Rightarrow> 'e outcome + pyval" where
  "resolve_vmid proxmox hostname_arg vmid_arg =
     (if \<not> truthy vmid_arg \<and> truthy hostname_arg then
        (case get_vmid proxmox hostname_arg of
           Inl e \<Rightarrow> Inl (Raised e)
         | Inr v \<Rightarrow> Inr v)
      else if \<not> truthy vmid_arg then Inl (ExitJson vmid_not_fetched)
      else Inr vmid_arg)"

text \<open>
  The first argument is the constructor \<open>ProxmoxSnapAnsible\<close>, applied to the module.
  \<open>Inl\<close> is a run that ends inside the function, \<open>Inr\<close> the returned list.
\<close>

definition get_proxmox_snapshotlist ::
  "(module_params \<Rightarrow> 'e + ('e, 'vm) proxmox) \<Rightarrow> module_params \<Rightarrow> pyval \<Rightarrow> pyval
     \<Rightarrow> 'e outcome + snapshot list" where
  "get_proxmox_snapshotlist ProxmoxSnapAnsible module_obj hostname_arg vmid_arg =
     (case ProxmoxSnapAnsible module_obj of
        Inl e \<Rightarrow> Inl (Raised e)
      | Inr proxmox \<Rightarrow>
          (case resolve_vmid proxmox hostname_arg vmid_arg of
             Inl out \<Rightarrow> Inl out
           | Inr v \<Rightarrow>
               (case get_vm proxmox v of
                  Inl e \<Rightarrow> Inl (Raised e)
                | Inr vm \<Rightarrow>
                    (case snapshot_get proxmox vm v of
                       Inl e \<Rightarrow> Inl (Raised e)
                     | Inr None \<Rightarrow> Inl (ExitJson snapshots_not_fetched)
                     | Inr (Some []) \<Rightarrow> Inl (ExitJson snapshots_not_fetched)
                     | Inr (Some (s # ss)) \<Rightarrow> Inr (s # ss)))))"

subsection \<open>\<open>main\<close> (lines 113 to 158)\<close>

text \<open>\<open>s["name"].startswith(snapname)\<close>.\<close>

definition startswith :: "string \<Rightarrow> string \<Rightarrow> bool" where
  "startswith s p = prefix p s"

text \<open>
  The body of the loop, lines 145 to 151, for one entry \<open>s\<close> and the clock reading
  \<open>now\<close> of line 150: \<open>Inr None\<close> is an entry passed over, \<open>Inr (Some n)\<close> is
  \<open>oldsnapshotlist.append(n)\<close>. The age is computed in exact arithmetic.
\<close>

definition main_loop_body ::
  "real \<Rightarrow> string option \<Rightarrow> int \<Rightarrow> snapshot \<Rightarrow> 'e outcome + string option" where
  "main_loop_body now snapname_arg older s =
     (case name s of
        None \<Rightarrow> Inl (KeyError ''name'')
      | Some n \<Rightarrow>
          if n = ''current'' then Inr None
          else if (case snapname_arg of
                     None \<Rightarrow> False
                   | Some p \<Rightarrow> p \<noteq> [] \<and> \<not> startswith n p) then Inr None
          else (case snaptime s of
                  None \<Rightarrow> Inl (KeyError ''snaptime'')
                | Some t \<Rightarrow>
                    if (now - t) / 60 / 60 / 24 > real_of_int older then Inr (Some n)
                    else Inr None))"

text \<open>
  The loop of line 144. \<open>time_time i\<close> is what \<open>time.time()\<close> returns when it is called
  in iteration \<open>i\<close> (counted from the first entry of the list).
\<close>

fun main_loop ::
  "(nat \<Rightarrow> real) \<Rightarrow> string option \<Rightarrow> int \<Rightarrow> nat \<Rightarrow> snapshot list \<Rightarrow> string list
     \<Rightarrow> 'e outcome + string list" where
  "main_loop time_time snapname_arg older i [] oldsnapshotlist = Inr oldsnapshotlist"
| "main_loop time_time snapname_arg older i (s # ss) oldsnapshotlist =
     (case main_loop_body (time_time i) snapname_arg older s of
        Inl err \<Rightarrow> Inl err
      | Inr None \<Rightarrow> main_loop time_time snapname_arg older (Suc i) ss oldsnapshotlist
      | Inr (Some n) \<Rightarrow>
          main_loop time_time snapname_arg older (Suc i) ss (oldsnapshotlist @ [n]))"

text \<open>
  \<open>HAS_PROXMOX_SNAP\<close> is the flag set by the import at lines 85 to 96. The parsing of
  the arguments by \<open>AnsibleModule\<close> has happened: \<open>module_obj\<close> is \<open>module.params\<close>.
\<close>

definition main ::
  "bool \<Rightarrow> (module_params \<Rightarrow> 'e + ('e, 'vm) proxmox) \<Rightarrow> (nat \<Rightarrow> real) \<Rightarrow> module_params
     \<Rightarrow> 'e outcome" where
  "main HAS_PROXMOX_SNAP ProxmoxSnapAnsible time_time module_obj =
     (if \<not> HAS_PROXMOX_SNAP then FailJsonMissingRequiredLib ''proxmox_snap''
      else
        (case get_proxmox_snapshotlist ProxmoxSnapAnsible module_obj
                (hostname module_obj) (vmid module_obj) of
           Inl out \<Rightarrow> out
         | Inr snapshotlist \<Rightarrow>
             (case main_loop time_time (snapname module_obj) (older_than module_obj) 0
                     snapshotlist [] of
                Inl err \<Rightarrow> err
              | Inr oldsnapshotlist \<Rightarrow>
                  ExitJson \<lparr>changed = False, msg = None,
                            results = Some oldsnapshotlist\<rparr>)))"


subsection \<open>Line 150 in double precision\<close>

text \<open>
  Python's floats are IEEE 754 binary64 numbers, and each \<open>-\<close> and \<open>/\<close> of line 150
  returns the exact result rounded to the nearest double, ties to the even mantissa.
  A double is a real here; \<open>round_double\<close> is the rounding. Results of magnitude
  \<open>2 ^ 1024\<close> and more (infinities) are outside: the statements below are about doubles
  of magnitude below \<open>2 ^ 1023\<close>, whose difference and quotients stay finite.

  \<open>round_half_even\<close> rounds to the nearest integer, a tie to the even one.
\<close>

definition round_half_even :: "real \<Rightarrow> int" where
  "round_half_even y =
     (let f = \<lfloor>y\<rfloor>
      in if y - real_of_int f < 1 / 2 then f
         else if 1 / 2 < y - real_of_int f then f + 1
         else if even f then f else f + 1)"

text \<open>
  The binary exponent of \<open>a > 0\<close>: the \<open>e\<close> with \<open>2 ^ e \<le> a < 2 ^ (e + 1)\<close>, and
  \<open>- 1022\<close> for the subnormal numbers below \<open>2 ^ (- 1022)\<close>.
\<close>

definition expo :: "real \<Rightarrow> int" where
  "expo a = max (- 1022) (if 1 \<le> a then bitlen \<lfloor>a\<rfloor> - 1 else - bitlen (\<lceil>1 / a\<rceil> - 1))"

text \<open>A double has 53 bits of mantissa: its unit in the last place is \<open>2 ^ (e - 52)\<close>.\<close>

definition round_double :: "real \<Rightarrow> real" where
  "round_double x =
     (if x = 0 then 0
      else sgn x * real_of_int (round_half_even (\<bar>x\<bar> / 2 powi (expo \<bar>x\<bar> - 52)))
             * 2 powi (expo \<bar>x\<bar> - 52))"


text \<open>
  \<open>(time.time() - s["snaptime"]) / 60 / 60 / 24\<close>: one subtraction and three
  divisions, each rounded. An integer \<open>snaptime\<close> is converted to a double first; \<open>t\<close>
  is that double.
\<close>

definition age_days_double :: "real \<Rightarrow> real \<Rightarrow> real" where
  "age_days_double now t =
     round_double (round_double (round_double (round_double (now - t) / 60) / 60) / 24)"

text \<open>The body and the loop again, with the age of line 150 computed on doubles.\<close>

definition main_loop_body_double ::
  "real \<Rightarrow> string option \<Rightarrow> int \<Rightarrow> snapshot \<Rightarrow> 'e outcome + string option" where
  "main_loop_body_double now snapname_arg older s =
     (case name s of
        None \<Rightarrow> Inl (KeyError ''name'')
      | Some n \<Rightarrow>
          if n = ''current'' then Inr None
          else if (case snapname_arg of
                     None \<Rightarrow> False
                   | Some p \<Rightarrow> p \<noteq> [] \<and> \<not> startswith n p) then Inr None
          else (case snaptime s of
                  None \<Rightarrow> Inl (KeyError ''snaptime'')
                | Some t \<Rightarrow>
                    if age_days_double now t > real_of_int older then Inr (Some n)
                    else Inr None))"


subsection \<open>The calls to the API client\<close>

text \<open>
  What the module hands to the API client: the module object to the constructor
  (line 99), the hostname to \<open>get_vmid\<close> (line 101), the identifier to \<open>get_vm\<close>
  (line 105), the instance and the identifier to \<open>snapshot\<close> (line 106).
\<close>

datatype 'vm api_call =
    Construct module_params
  | GetVmid pyval
  | GetVm pyval
  | SnapshotGet 'vm pyval


text \<open>Lines 105 to 110 with the calls they make, in order.\<close>

definition fetch_calls ::
  "('e, 'vm) proxmox \<Rightarrow> pyval \<Rightarrow> 'vm api_call list \<times> ('e outcome + snapshot list)" where
  "fetch_calls proxmox v =
     (case get_vm proxmox v of
        Inl e \<Rightarrow> ([GetVm v], Inl (Raised e))
      | Inr vm \<Rightarrow>
          ([GetVm v, SnapshotGet vm v],
           (case snapshot_get proxmox vm v of
              Inl e \<Rightarrow> Inl (Raised e)
            | Inr None \<Rightarrow> Inl (ExitJson snapshots_not_fetched)
            | Inr (Some []) \<Rightarrow> Inl (ExitJson snapshots_not_fetched)
            | Inr (Some (s # ss)) \<Rightarrow> Inr (s # ss))))"

text \<open>
  \<open>get_proxmox_snapshotlist\<close> with the calls it makes, in order; the second component
  is the result of \<open>get_proxmox_snapshotlist\<close> (\<open>get_proxmox_snapshotlist_calls_result\<close>).
\<close>

definition get_proxmox_snapshotlist_calls ::
  "(module_params \<Rightarrow> 'e + ('e, 'vm) proxmox) \<Rightarrow> module_params \<Rightarrow> pyval \<Rightarrow> pyval
     \<Rightarrow> 'vm api_call list \<times> ('e outcome + snapshot list)" where
  "get_proxmox_snapshotlist_calls ProxmoxSnapAnsible module_obj hostname_arg vmid_arg =
     (case ProxmoxSnapAnsible module_obj of
        Inl e \<Rightarrow> ([Construct module_obj], Inl (Raised e))
      | Inr proxmox \<Rightarrow>
          (if \<not> truthy vmid_arg \<and> truthy hostname_arg then
             (case get_vmid proxmox hostname_arg of
                Inl e \<Rightarrow> ([Construct module_obj, GetVmid hostname_arg], Inl (Raised e))
              | Inr v \<Rightarrow>
                  (Construct module_obj # GetVmid hostname_arg # fst (fetch_calls proxmox v),
                   snd (fetch_calls proxmox v)))
           else if \<not> truthy vmid_arg then
             ([Construct module_obj], Inl (ExitJson vmid_not_fetched))
           else
             (Construct module_obj # fst (fetch_calls proxmox vmid_arg),
              snd (fetch_calls proxmox vmid_arg))))"

subsection \<open>The filter in the words of the specification\<close>

text \<open>
  The three checks of the specification for one record, at the clock reading \<open>now\<close>:
  the name is not \<open>"current"\<close>, the name starts with the prefix when a prefix filter is
  set, and \<open>(now - snaptime) / 86400 > older_than\<close>.
\<close>

definition spec_passes :: "real \<Rightarrow> string option \<Rightarrow> int \<Rightarrow> snapshot \<Rightarrow> bool" where
  "spec_passes now snapname_arg older s =
     (case name s of
        None \<Rightarrow> False
      | Some n \<Rightarrow>
          n \<noteq> ''current'' \<and>
          (case snapname_arg of None \<Rightarrow> True | Some p \<Rightarrow> p = [] \<or> prefix p n) \<and>
          (case snaptime s of
             None \<Rightarrow> False
           | Some t \<Rightarrow> (now - t) / 86400 > real_of_int older))"

text \<open>
  The names of the records that pass, in the order of the source list. The record at
  position \<open>k\<close> of \<open>ss\<close> is judged at the clock reading \<open>time_time (i + k)\<close>.
\<close>

definition spec_results ::
  "(nat \<Rightarrow> real) \<Rightarrow> string option \<Rightarrow> int \<Rightarrow> nat \<Rightarrow> snapshot list \<Rightarrow> string list" where
  "spec_results time_time snapname_arg older i ss =
     List.map_filter name
       (map fst (filter (\<lambda>(s, j). spec_passes (time_time j) snapname_arg older s)
                   (zip ss [i ..< i + length ss])))"

text \<open>
  Two runs get the same answers from the API client for the identifier \<open>v\<close>: the
  constructor fails alike, or \<open>get_vm v\<close> and the fetch for \<open>v\<close> answer alike.
  Nothing is said about \<open>get_vmid\<close>.
\<close>

definition same_responses_for ::
  "pyval \<Rightarrow> 'e + ('e, 'vm) proxmox \<Rightarrow> 'e + ('e, 'vm) proxmox \<Rightarrow> bool" where
  "same_responses_for v r r' =
     (case r of
        Inl e \<Rightarrow> (case r' of Inl e' \<Rightarrow> e' = e | Inr _ \<Rightarrow> False)
      | Inr a \<Rightarrow>
          (case r' of
             Inl _ \<Rightarrow> False
           | Inr a' \<Rightarrow>
               get_vm a v = get_vm a' v \<and>
               (case get_vm a v of
                  Inl _ \<Rightarrow> True
                | Inr vm \<Rightarrow> snapshot_get a vm v = snapshot_get a' vm v)))"

subsection \<open>A concrete cluster\<close>

text \<open>
  One instance, \<open>web01\<close> with identifier 100, holding the three snapshots of Scenario A
  of the specification. A name that is not known resolves to \<open>None\<close>; an identifier
  that is not known makes \<open>get_vm\<close> raise.
\<close>

definition scenario_snapshots :: "real \<Rightarrow> snapshot list" where
  "scenario_snapshots now =
     [\<lparr>name = Some ''current'', snaptime = Some now\<rparr>,
      \<lparr>name = Some ''daily_1'', snaptime = Some (now - 3 * 86400)\<rparr>,
      \<lparr>name = Some ''daily_2'', snaptime = Some (now - 1 * 86400)\<rparr>]"

definition scenario_proxmox :: "snapshot list \<Rightarrow> (string, nat) proxmox" where
  "scenario_proxmox snaps =
     \<lparr>get_vmid = (\<lambda>h. if h = PStr ''web01'' then Inr (PInt 100) else Inr PNone),
      get_vm = (\<lambda>v. if v = PInt 100 \<or> v = PStr ''100'' then Inr 100
                     else Inl ''no such vm''),
      snapshot_get = (\<lambda>vm v. Inr (Some snaps))\<rparr>"

definition scenario_connect ::
  "snapshot list \<Rightarrow> module_params \<Rightarrow> string + (string, nat) proxmox" where
  "scenario_connect snaps module_obj = Inr (scenario_proxmox snaps)"

definition fixed_clock :: "real \<Rightarrow> nat \<Rightarrow> real" where
  "fixed_clock now i = now"

text \<open>The doubles nearest to 86400.1 and to 0.1.\<close>

definition double_86400_1 :: real where
  "double_86400_1 = 2968684830969037 / 34359738368"

definition double_0_1 :: real where
  "double_0_1 = 3602879701896397 / 36028797018963968"

definition scenario_params :: "pyval \<Rightarrow> pyval \<Rightarrow> string option \<Rightarrow> int \<Rightarrow> module_params" where
  "scenario_params v h sn d =
     \<lparr>vmid = v, hostname = h, timeout = 30, snapname = sn, older_than = d\<rparr>"

section \<open>Properties\<close>

subsection \<open>The loop and the specification's filter\<close>

lemma spec_results_Nil: "spec_results c sn d i [] = []"
  by (simp add: spec_results_def List.map_filter_simps)

lemma spec_results_Cons:
  "spec_results c sn d i (s # ss) =
     (if spec_passes (c i) sn d s then (case name s of None \<Rightarrow> [] | Some n \<Rightarrow> [n]) else [])
       @ spec_results c sn d (Suc i) ss"
proof -
  have "[i ..< i + length (s # ss)] = i # [Suc i ..< Suc i + length ss]"
    by (simp add: upt_conv_Cons del: upt_Suc)
  then show ?thesis
    by (simp add: spec_results_def List.map_filter_simps spec_passes_def
             split: option.splits del: upt_Suc)
qed

lemma spec_results_member:
  "n \<in> set (spec_results c sn d i ss)
     \<Longrightarrow> \<exists>s j. s \<in> set ss \<and> name s = Some n \<and> spec_passes (c j) sn d s"
proof (induction ss arbitrary: i)
  case Nil
  then show ?case by (simp add: spec_results_Nil)
next
  case (Cons s ss)
  have "(spec_passes (c i) sn d s \<and> name s = Some n)
          \<or> n \<in> set (spec_results c sn d (Suc i) ss)"
  proof (cases "spec_passes (c i) sn d s")
    case True
    with Cons.prems show ?thesis
      by (cases "name s") (auto simp: spec_results_Cons)
  next
    case False
    with Cons.prems show ?thesis
      by (simp add: spec_results_Cons)
  qed
  then show ?case
  proof
    assume "spec_passes (c i) sn d s \<and> name s = Some n"
    then show ?thesis by auto
  next
    assume "n \<in> set (spec_results c sn d (Suc i) ss)"
    then obtain s' j where "s' \<in> set ss" "name s' = Some n" "spec_passes (c j) sn d s'"
      using Cons.IH by blast
    then show ?thesis by auto
  qed
qed



lemma main_loop_body_Some_iff:
  "(main_loop_body now sn d s :: 'e outcome + string option) = Inr (Some n)
     \<longleftrightarrow> name s = Some n \<and> spec_passes now sn d s"
  by (auto simp: main_loop_body_def spec_passes_def startswith_def
           split: option.splits if_splits)

lemma main_loop_body_None_imp:
  "(main_loop_body now sn d s :: 'e outcome + string option) = Inr None
     \<Longrightarrow> \<not> spec_passes now sn d s"
  by (auto simp: main_loop_body_def spec_passes_def startswith_def
           split: option.splits if_splits)

lemma main_loop_body_Inl:
  "(main_loop_body now sn d s :: 'e outcome + string option) = Inl err
     \<Longrightarrow> err = KeyError ''name'' \<or> err = KeyError ''snaptime''"
  by (auto simp: main_loop_body_def split: option.splits if_splits)

lemma main_loop_Inr:
  "(main_loop c sn d i ss acc :: 'e outcome + string list) = Inr res
     \<Longrightarrow> res = acc @ spec_results c sn d i ss"
proof (induction ss arbitrary: i acc)
  case Nil
  then show ?case by (simp add: spec_results_Nil)
next
  case (Cons s ss)
  show ?case
  proof (cases "main_loop_body (c i) sn d s :: 'e outcome + string option")
    case (Inl err)
    with Cons.prems show ?thesis by simp
  next
    case (Inr verdict)
    show ?thesis
    proof (cases verdict)
      case None
      with Inr Cons.prems
      have "main_loop c sn d (Suc i) ss acc = (Inr res :: 'e outcome + string list)"
        by simp
      then have "res = acc @ spec_results c sn d (Suc i) ss"
        by (rule Cons.IH)
      moreover have "\<not> spec_passes (c i) sn d s"
        using Inr None main_loop_body_None_imp by blast
      ultimately show ?thesis
        by (simp add: spec_results_Cons)
    next
      case (Some n)
      with Inr Cons.prems
      have "main_loop c sn d (Suc i) ss (acc @ [n]) = (Inr res :: 'e outcome + string list)"
        by simp
      then have "res = (acc @ [n]) @ spec_results c sn d (Suc i) ss"
        by (rule Cons.IH)
      moreover have "name s = Some n \<and> spec_passes (c i) sn d s"
        using Inr Some main_loop_body_Some_iff by blast
      ultimately show ?thesis
        by (simp add: spec_results_Cons)
    qed
  qed
qed

lemma main_loop_Inl:
  "(main_loop c sn d i ss acc :: 'e outcome + string list) = Inl err
     \<Longrightarrow> err = KeyError ''name'' \<or> err = KeyError ''snaptime''"
proof (induction ss arbitrary: i acc)
  case Nil
  then show ?case by simp
next
  case (Cons s ss)
  then show ?case
    by (auto split: sum.splits option.splits dest: main_loop_body_Inl)
qed

text \<open>The loop returns a list when no read of a key fails.\<close>

lemma main_loop_total:
  assumes "\<forall>s \<in> set ss. name s \<noteq> None \<and> snaptime s \<noteq> None"
  shows "(main_loop c sn d i ss acc :: 'e outcome + string list)
           = Inr (acc @ spec_results c sn d i ss)"
proof (cases "main_loop c sn d i ss acc :: 'e outcome + string list")
  case (Inr res)
  then show ?thesis using main_loop_Inr by blast
next
  case (Inl err)
  from assms have False if "(main_loop c sn d i ss acc :: 'e outcome + string list) = Inl e"
    for e i acc
    using that
  proof (induction ss arbitrary: i acc)
    case Nil
    then show ?case by simp
  next
    case (Cons s ss)
    then show ?case
      by (auto simp: main_loop_body_def split: sum.splits option.splits if_splits)
  qed
  with Inl show ?thesis by blast
qed

subsection \<open>How a run can end\<close>

lemma get_proxmox_snapshotlist_exit:
  "get_proxmox_snapshotlist ctor p h v = Inl (ExitJson r)
     \<Longrightarrow> r = vmid_not_fetched \<or> r = snapshots_not_fetched"
  by (auto simp: get_proxmox_snapshotlist_def resolve_vmid_def
           split: sum.splits option.splits list.splits if_splits)

lemma main_exit_cases:
  assumes "(main has ctor c p :: 'e outcome) = ExitJson r"
  shows "r = vmid_not_fetched \<or> r = snapshots_not_fetched \<or>
         (\<exists>ss res. get_proxmox_snapshotlist ctor p (hostname p) (vmid p) = Inr ss \<and>
                    main_loop c (snapname p) (older_than p) 0 ss [] = (Inr res :: 'e outcome + string list) \<and>
                    r = \<lparr>changed = False, msg = None, results = Some res\<rparr>)"
proof -
  from assms have has: has
    by (auto simp: main_def split: if_splits)
  show ?thesis
  proof (cases "get_proxmox_snapshotlist ctor p (hostname p) (vmid p)")
    case (Inl out)
    with assms has have "out = ExitJson r" by (simp add: main_def)
    with Inl show ?thesis using get_proxmox_snapshotlist_exit by blast
  next
    case (Inr ss)
    show ?thesis
    proof (cases "main_loop c (snapname p) (older_than p) 0 ss [] :: 'e outcome + string list")
      case (Inl err)
      with Inr assms has have "err = ExitJson r" by (simp add: main_def)
      with Inl show ?thesis using main_loop_Inl by blast
    next
      case inner: (Inr res)
      with Inr assms has have "r = \<lparr>changed = False, msg = None, results = Some res\<rparr>"
        by (simp add: main_def)
      with Inr inner show ?thesis by blast
    qed
  qed
qed

lemma main_results:
  assumes "(main has ctor c p :: 'e outcome) = ExitJson r" and "results r = Some res"
  shows "\<exists>ss. get_proxmox_snapshotlist ctor p (hostname p) (vmid p) = Inr ss \<and>
              res = spec_results c (snapname p) (older_than p) 0 ss"
proof -
  from main_exit_cases [OF assms(1)] assms(2)
  obtain ss res' where
    ss: "get_proxmox_snapshotlist ctor p (hostname p) (vmid p) = Inr ss" and
    loop: "main_loop c (snapname p) (older_than p) 0 ss [] = (Inr res' :: 'e outcome + string list)" and
    r: "r = \<lparr>changed = False, msg = None, results = Some res'\<rparr>"
    by (auto simp: vmid_not_fetched_def snapshots_not_fetched_def)
  from r assms(2) have "res' = res" by simp
  with main_loop_Inr [OF loop] ss show ?thesis by auto
qed

subsection \<open>Rounding to a double\<close>


lemma round_half_even_le:
  assumes "y \<le> real_of_int K"
  shows "round_half_even y \<le> K"
proof -
  have f: "\<lfloor>y\<rfloor> \<le> K" using assms by (simp add: floor_le_iff)
  show ?thesis
  proof (cases "y - real_of_int \<lfloor>y\<rfloor> < 1 / 2")
    case True
    with f show ?thesis by (simp add: round_half_even_def)
  next
    case False
    then have "real_of_int \<lfloor>y\<rfloor> < y" by linarith
    with assms have "real_of_int \<lfloor>y\<rfloor> < real_of_int K" by linarith
    then have "\<lfloor>y\<rfloor> + 1 \<le> K" by linarith
    with f show ?thesis by (simp add: round_half_even_def Let_def)
  qed
qed

lemma round_half_even_ge:
  assumes "real_of_int K \<le> y"
  shows "K \<le> round_half_even y"
proof -
  have "K \<le> \<lfloor>y\<rfloor>" using assms by (simp add: le_floor_iff)
  then show ?thesis by (simp add: round_half_even_def Let_def)
qed

lemma powi_le_52: "e \<le> 52 \<Longrightarrow> (2::real) powi (e - 52) = 1 / 2 ^ nat (52 - e)"
  by (cases "e = 52") (simp_all add: power_int_def power_inverse divide_simps)

lemma expo_le_52:
  assumes "0 < a" and "a < 2 ^ 53"
  shows "expo a \<le> 52"
proof (cases "1 \<le> a")
  case True
  from assms(2) have "\<lfloor>a\<rfloor> < 2 ^ 53" by (simp add: floor_less_iff)
  then have "bitlen \<lfloor>a\<rfloor> \<le> 53" by (simp add: bitlen_le_iff_power)
  with True show ?thesis by (simp add: expo_def)
next
  case False
  have "0 \<le> bitlen (\<lceil>1 / a\<rceil> - 1)" by (rule bitlen_nonneg)
  with False show ?thesis by (simp add: expo_def)
qed

lemma expo_lower:
  assumes "0 < a" and "- 1022 < expo a"
  shows "2 powi (expo a) \<le> a"
proof (cases "1 \<le> a")
  case True
  let ?k = "\<lfloor>a\<rfloor>"
  from True have k: "0 < ?k" by linarith
  from assms(2) True have e: "expo a = bitlen ?k - 1" by (simp add: expo_def max_def split: if_splits)
  from k have "1 \<le> bitlen ?k" by (simp add: bitlen_ge_iff_power)
  then have "(2::real) powi (bitlen ?k - 1) = 2 ^ nat (bitlen ?k - 1)"
    by (simp add: power_int_def)
  also have "\<dots> \<le> real_of_int ?k"
    using bitlen_bounds [OF k] by (metis of_int_le_iff of_int_numeral of_int_power)
  also have "\<dots> \<le> a" by simp
  finally show ?thesis by (simp add: e)
next
  case False
  let ?m = "\<lceil>1 / a\<rceil> - 1"
  let ?b = "bitlen ?m"
  from False assms(1) have inv: "1 < 1 / a" by simp
  then have m: "0 < ?m" by linarith
  from assms(2) False have e: "expo a = - ?b" by (simp add: expo_def max_def split: if_splits)
  have "1 / a \<le> real_of_int (?m + 1)" by simp
  also have "?m + 1 \<le> 2 ^ nat ?b" using bitlen_bounds [OF m] by simp
  then have "real_of_int (?m + 1) \<le> 2 ^ nat ?b"
    by (metis of_int_le_iff of_int_numeral of_int_power)
  finally have "1 / a \<le> 2 ^ nat ?b" .
  with assms(1) have "1 / 2 ^ nat ?b \<le> a"
    by (simp add: field_simps)
  moreover have "(2::real) powi (- ?b) = 1 / 2 ^ nat ?b"
    using bitlen_nonneg [of ?m] by (cases "?b = 0") (simp_all add: power_int_def power_inverse divide_simps)
  ultimately show ?thesis by (simp add: e)
qed

lemma expo_upper:
  assumes "0 < a"
  shows "a < 2 powi (expo a + 1)"
proof -
  let ?raw = "if 1 \<le> a then bitlen \<lfloor>a\<rfloor> - 1 else - bitlen (\<lceil>1 / a\<rceil> - 1)"
  have raw: "a < 2 powi (?raw + 1)"
  proof (cases "1 \<le> a")
    case True
    let ?k = "\<lfloor>a\<rfloor>"
    from True have k: "0 < ?k" by linarith
    have "?k + 1 \<le> 2 ^ nat (bitlen ?k)" using bitlen_bounds [OF k] by simp
    then have "real_of_int (?k + 1) \<le> 2 ^ nat (bitlen ?k)"
      by (metis of_int_le_iff of_int_numeral of_int_power)
    moreover have "a < real_of_int (?k + 1)" by linarith
    ultimately have "a < 2 ^ nat (bitlen ?k)" by linarith
    moreover have "(2::real) powi (bitlen ?k) = 2 ^ nat (bitlen ?k)"
      using bitlen_nonneg [of ?k] by (simp add: power_int_def)
    ultimately show ?thesis using True by simp
  next
    case False
    let ?m = "\<lceil>1 / a\<rceil> - 1"
    let ?b = "bitlen ?m"
    from False assms have inv: "1 < 1 / a" by simp
    then have m: "0 < ?m" by linarith
    then have b1: "1 \<le> ?b" by (simp add: bitlen_ge_iff_power)
    have "2 ^ nat (?b - 1) \<le> ?m" using bitlen_bounds [OF m] by simp
    then have "(2::real) ^ nat (?b - 1) \<le> real_of_int ?m"
      by (metis of_int_le_iff of_int_numeral of_int_power)
    also have "real_of_int ?m < 1 / a" by linarith
    finally have "a < 1 / 2 ^ nat (?b - 1)"
      using assms by (simp add: field_simps)
    moreover have "(2::real) powi (- ?b + 1) = 1 / 2 ^ nat (?b - 1)"
      using b1 by (cases "?b = 1") (simp_all add: power_int_def power_inverse divide_simps)
    ultimately show ?thesis using False by simp
  qed
  have "?raw \<le> expo a" by (simp add: expo_def)
  then have "(2::real) powi (?raw + 1) \<le> 2 powi (expo a + 1)"
    by (intro power_int_increasing) simp_all
  with raw show ?thesis by linarith
qed

lemma round_double_nonpos:
  assumes "x \<le> 0"
  shows "round_double x \<le> 0"
proof (cases "x = 0")
  case True
  then show ?thesis by (simp add: round_double_def)
next
  case False
  with assms have neg: "x < 0" by simp
  let ?u = "(2::real) powi (expo \<bar>x\<bar> - 52)"
  have u: "0 < ?u" by simp
  then have "0 \<le> \<bar>x\<bar> / ?u" by simp
  then have "0 \<le> round_half_even (\<bar>x\<bar> / ?u)"
    using round_half_even_ge [of 0] by simp
  then have "0 \<le> real_of_int (round_half_even (\<bar>x\<bar> / ?u)) * ?u"
    using u by simp
  with neg show ?thesis
    by (simp add: round_double_def mult_le_0_iff)
qed

lemma round_double_le_int:
  assumes "x \<le> real_of_int k" and "0 \<le> k" and "k < 2 ^ 53"
  shows "round_double x \<le> real_of_int k"
proof (cases "x \<le> 0")
  case True
  then have "round_double x \<le> 0" by (rule round_double_nonpos)
  with assms(2) show ?thesis by linarith
next
  case False
  then have pos: "0 < x" by simp
  from assms(3) have "real_of_int k < 2 ^ 53"
    by (metis of_int_less_iff of_int_numeral of_int_power)
  with assms(1) have "x < 2 ^ 53" by linarith
  with pos have e: "expo x \<le> 52" by (rule expo_le_52)
  let ?j = "nat (52 - expo x)"
  have u: "(2::real) powi (expo x - 52) = 1 / 2 ^ ?j" using e by (rule powi_le_52)
  have "x / (1 / 2 ^ ?j) = x * 2 ^ ?j" by simp
  also have "\<dots> \<le> real_of_int k * 2 ^ ?j" using assms(1) by simp
  also have "\<dots> = real_of_int (k * 2 ^ ?j)" by simp
  finally have "round_half_even (x / (1 / 2 ^ ?j)) \<le> k * 2 ^ ?j"
    by (rule round_half_even_le)
  then have "real_of_int (round_half_even (x / (1 / 2 ^ ?j))) \<le> real_of_int (k * 2 ^ ?j)"
    by (simp only: of_int_le_iff)
  then have "real_of_int (round_half_even (x / (1 / 2 ^ ?j))) * (1 / 2 ^ ?j) \<le> real_of_int k"
    by (simp add: field_simps)
  with pos u show ?thesis
    by (simp add: round_double_def)
qed



lemma round_double_pos_eq:
  "0 < x \<Longrightarrow> round_double x
     = real_of_int (round_half_even (x / 2 powi (expo x - 52))) * 2 powi (expo x - 52)"
  by (simp add: round_double_def)

lemma round_double_ge_dyadic:
  assumes k: "0 < k" "k < 2 ^ 53" and j: "j \<le> 1074"
    and x: "real_of_int k / 2 ^ j \<le> x"
  shows "real_of_int k / 2 ^ j \<le> round_double x"
proof -
  let ?r = "real_of_int k / 2 ^ j"
  let ?e = "expo x"
  let ?u = "(2::real) powi (?e - 52)"
  from k(1) have rpos: "0 < ?r" by simp
  with x have pos: "0 < x" by linarith
  have u: "0 < ?u" by simp
  show ?thesis
  proof (cases "?e \<le> 52 - int j")
    case True
    then have e52: "?e \<le> 52" by linarith
    let ?n = "nat (52 - ?e - int j)"
    have split: "nat (52 - ?e) = ?n + j" using True by linarith
    have ueq: "?u = 1 / 2 ^ (?n + j)"
      using powi_le_52 [OF e52] split by simp
    have "real_of_int (k * 2 ^ ?n) = ?r * 2 ^ (?n + j)"
      by (simp add: power_add)
    also have "\<dots> \<le> x * 2 ^ (?n + j)"
      using x by (intro mult_right_mono) simp_all
    also have "\<dots> = x / ?u" by (simp add: ueq)
    finally have "k * 2 ^ ?n \<le> round_half_even (x / ?u)"
      by (rule round_half_even_ge)
    then have "real_of_int (k * 2 ^ ?n) \<le> real_of_int (round_half_even (x / ?u))"
      by (simp only: of_int_le_iff)
    then have "real_of_int (k * 2 ^ ?n) * ?u \<le> real_of_int (round_half_even (x / ?u)) * ?u"
      using u by (simp only: mult_le_cancel_right_pos)
    moreover have "real_of_int (k * 2 ^ ?n) * ?u = ?r"
      by (simp add: ueq power_add)
    ultimately show ?thesis
      using pos by (simp only: round_double_pos_eq)
  next
    case False
    then have big: "53 - int j \<le> ?e" by linarith
    with j have "- 1022 < ?e" by linarith
    with pos have low: "2 powi ?e \<le> x" by (rule expo_lower)
    have "(2::real) powi ?e = 2 powi (?e - 52) * 2 powi 52"
      using power_int_add [of "2::real" "?e - 52" 52] by simp
    then have "real_of_int (2 ^ 52) * ?u = 2 powi ?e" by simp
    with low have "real_of_int (2 ^ 52) \<le> x / ?u"
      using u by (simp add: field_simps)
    then have "2 ^ 52 \<le> round_half_even (x / ?u)"
      by (rule round_half_even_ge)
    then have "real_of_int (2 ^ 52) \<le> real_of_int (round_half_even (x / ?u))"
      by (simp only: of_int_le_iff)
    then have "real_of_int (2 ^ 52) * ?u \<le> real_of_int (round_half_even (x / ?u)) * ?u"
      using u by (simp only: mult_le_cancel_right_pos)
    then have ge: "2 powi ?e \<le> round_double x"
      using pos \<open>real_of_int (2 ^ 52) * ?u = 2 powi ?e\<close> by (simp only: round_double_pos_eq)
    from k(2) have "real_of_int k < 2 ^ 53"
      by (metis of_int_less_iff of_int_numeral of_int_power)
    then have "?r < 2 ^ 53 / 2 ^ j" by (simp add: divide_strict_right_mono)
    also have "\<dots> = 2 powi (53 - int j)"
      using power_int_diff [of "2::real" 53 "int j"] by simp
    also have "\<dots> \<le> 2 powi ?e"
      using big by (intro power_int_increasing) simp_all
    finally show ?thesis using ge by linarith
  qed
qed

lemma age_days_double_le:
  assumes "now - t \<le> real_of_int d * 86400" and "0 \<le> d" and "d * 86400 < 2 ^ 53"
  shows "age_days_double now t \<le> real_of_int d"
proof -
  let ?a0 = "round_double (now - t)"
  let ?a1 = "round_double (?a0 / 60)"
  let ?a2 = "round_double (?a1 / 60)"
  from assms have "now - t \<le> real_of_int (d * 86400)" by simp
  then have "?a0 \<le> real_of_int (d * 86400)"
    using assms(2,3) by (intro round_double_le_int) simp_all
  then have "?a0 / 60 \<le> real_of_int (d * 1440)" by simp
  then have "?a1 \<le> real_of_int (d * 1440)"
    using assms(2,3) by (intro round_double_le_int) simp_all
  then have "?a1 / 60 \<le> real_of_int (d * 24)" by simp
  then have "?a2 \<le> real_of_int (d * 24)"
    using assms(2,3) by (intro round_double_le_int) simp_all
  then have "?a2 / 24 \<le> real_of_int d" by simp
  then have "round_double (?a2 / 24) \<le> real_of_int d"
    using assms(2,3) by (intro round_double_le_int) simp_all
  then show ?thesis by (simp add: age_days_double_def)
qed

lemma age_days_double_gt:
  assumes "real_of_int d * 86400 + 1 \<le> now - t" and "0 \<le> d" and "d < 2 ^ 35"
  shows "real_of_int d < age_days_double now t"
proof -
  let ?a0 = "round_double (now - t)"
  let ?a1 = "round_double (?a0 / 60)"
  let ?a2 = "round_double (?a1 / 60)"
  from assms(1) have "real_of_int (d * 86400 + 1) / 2 ^ 0 \<le> now - t" by simp
  then have "real_of_int (d * 86400 + 1) / 2 ^ 0 \<le> ?a0"
    using assms(2,3) by (intro round_double_ge_dyadic) simp_all
  then have "real_of_int (d * 92160 + 1) / 2 ^ 6 \<le> ?a0 / 60" by simp
  then have "real_of_int (d * 92160 + 1) / 2 ^ 6 \<le> ?a1"
    using assms(2,3) by (intro round_double_ge_dyadic) simp_all
  then have "real_of_int (d * 98304 + 1) / 2 ^ 12 \<le> ?a1 / 60" by simp
  then have "real_of_int (d * 98304 + 1) / 2 ^ 12 \<le> ?a2"
    using assms(2,3) by (intro round_double_ge_dyadic) simp_all
  then have "real_of_int (d * 131072 + 1) / 2 ^ 17 \<le> ?a2 / 24" by simp
  then have "real_of_int (d * 131072 + 1) / 2 ^ 17 \<le> round_double (?a2 / 24)"
    using assms(2,3) by (intro round_double_ge_dyadic) simp_all
  then show ?thesis by (simp add: age_days_double_def)
qed

text \<open>The two doubles of the boundary case are what rounding gives for 0.1 and 86400.1.\<close>

lemma double_constants:
  "round_double (1 / 10) = double_0_1 \<and> round_double (864001 / 10) = double_86400_1"
  unfolding double_0_1_def double_86400_1_def by code_simp

text \<open>
  Where the two readings of line 150 agree: everywhere but at an age above
  \<open>older_than\<close> days by less than a second.
\<close>

lemma main_loop_body_double_exact:
  assumes "0 \<le> d" and "d < 2 ^ 35"
    and "\<forall>t. snaptime s = Some t
           \<longrightarrow> now - t \<le> real_of_int d * 86400 \<or> real_of_int d * 86400 + 1 \<le> now - t"
  shows "(main_loop_body_double now sn d s :: 'e outcome + string option)
           = main_loop_body now sn d s"
proof (cases "snaptime s")
  case None
  then show ?thesis
    by (simp add: main_loop_body_double_def main_loop_body_def split: option.splits)
next
  case (Some t)
  from assms(1,2) have small: "d * 86400 < 2 ^ 53" by simp
  from assms(3) Some
  have "now - t \<le> real_of_int d * 86400 \<or> real_of_int d * 86400 + 1 \<le> now - t"
    by simp
  then have "(real_of_int d < age_days_double now t)
               = (real_of_int d < (now - t) / 60 / 60 / 24)"
  proof
    assume le: "now - t \<le> real_of_int d * 86400"
    then have "age_days_double now t \<le> real_of_int d"
      using assms(1) small by (rule age_days_double_le)
    with le show ?thesis by simp
  next
    assume ge: "real_of_int d * 86400 + 1 \<le> now - t"
    then have "real_of_int d < age_days_double now t"
      using assms(1,2) by (rule age_days_double_gt)
    with ge show ?thesis by simp
  qed
  with Some show ?thesis
    by (simp add: main_loop_body_double_def main_loop_body_def split: option.splits)
qed

subsection \<open>The calls and the result\<close>

lemma get_proxmox_snapshotlist_calls_result:
  "snd (get_proxmox_snapshotlist_calls ctor p h v) = get_proxmox_snapshotlist ctor p h v"
  by (simp add: get_proxmox_snapshotlist_calls_def get_proxmox_snapshotlist_def
        resolve_vmid_def fetch_calls_def split: sum.splits)



subsection \<open>The claims\<close>

text \<open>
  C1. For every fetched snapshot list and every value of \<open>snapname\<close> and
  \<open>older_than\<close>, the name \<open>"current"\<close> is not in the returned results: neither in
  the list the loop builds nor in the \<open>results\<close> of a run of \<open>main\<close>.
\<close>

theorem current_never_in_results:
  "((main_loop c sn d 0 ss [] :: 'e outcome + string list) = Inr res
      \<longrightarrow> ''current'' \<notin> set res) \<and>
   ((main has ctor c p :: 'e outcome) = ExitJson r \<and> results r = Some res'
      \<longrightarrow> ''current'' \<notin> set res')"
proof -
  have no_current: "''current'' \<notin> set (spec_results c' sn' d' i' ss')" for c' sn' d' i' ss'
  proof
    assume "''current'' \<in> set (spec_results c' sn' d' i' ss')"
    then obtain s j where "name s = Some ''current''" "spec_passes (c' j) sn' d' s"
      using spec_results_member by blast
    then show False by (simp add: spec_passes_def)
  qed
  have "''current'' \<notin> set res"
    if "(main_loop c sn d 0 ss [] :: 'e outcome + string list) = Inr res"
    using main_loop_Inr [OF that] no_current by simp
  moreover have "''current'' \<notin> set res'"
    if "(main has ctor c p :: 'e outcome) = ExitJson r \<and> results r = Some res'"
    using main_results [of has ctor c p r res'] that no_current by auto
  ultimately show ?thesis by blast
qed

theorem current_never_in_results_witness:
  "(main_loop (fixed_clock 1000000) (Some ''cur'') 0 0 (scenario_snapshots 1000000) []
      :: string outcome + string list) = Inr [] \<and>
   main True (scenario_connect (scenario_snapshots 1000000)) (fixed_clock 1000000)
      (scenario_params (PStr ''100'') PNone None 0)
     = ExitJson \<lparr>changed = False, msg = None, results = Some [''daily_1'', ''daily_2'']\<rparr> \<and>
   ''current'' \<notin> set [''daily_1'', ''daily_2'']"
  using current_never_in_results
    [of "fixed_clock 1000000" "Some ''cur''" 0 "scenario_snapshots 1000000" "[]" True
        "scenario_connect (scenario_snapshots 1000000)"
        "scenario_params (PStr ''100'') PNone None 0"
        "\<lparr>changed = False, msg = None, results = Some [''daily_1'', ''daily_2'']\<rparr>"
        "[''daily_1'', ''daily_2'']"]
  by (simp add: main_def get_proxmox_snapshotlist_def resolve_vmid_def main_loop_body_def
        scenario_connect_def scenario_proxmox_def scenario_snapshots_def scenario_params_def
        fixed_clock_def startswith_def)




text \<open>
  C4. When the \<open>snapname\<close> parameter is set, every name in the returned results
  starts with it; a name that does not start with it is not in the results, whatever
  its age.
\<close>

theorem results_start_with_snapname:
  assumes "snapname p = Some pre"
    and "(main has ctor c p :: 'e outcome) = ExitJson r"
    and "results r = Some res"
  shows "(\<forall>n \<in> set res. startswith n pre) \<and> (\<forall>n. \<not> startswith n pre \<longrightarrow> n \<notin> set res)"
proof -
  obtain ss where res: "res = spec_results c (snapname p) (older_than p) 0 ss"
    using main_results [OF assms(2,3)] by blast
  have "startswith n pre" if "n \<in> set res" for n
  proof -
    from that res assms(1) obtain s j where
      "name s = Some n" "spec_passes (c j) (Some pre) (older_than p) s"
      using spec_results_member by metis
    then show ?thesis
      by (auto simp: spec_passes_def startswith_def)
  qed
  then show ?thesis by blast
qed

theorem results_start_with_snapname_witness:
  "snapname (scenario_params (PStr ''100'') PNone (Some ''daily_1'') 0) = Some ''daily_1'' \<and>
   main True (scenario_connect (scenario_snapshots 1000000)) (fixed_clock 1000000)
      (scenario_params (PStr ''100'') PNone (Some ''daily_1'') 0)
     = ExitJson \<lparr>changed = False, msg = None, results = Some [''daily_1'']\<rparr> \<and>
   startswith ''daily_1'' ''daily_1'' \<and> \<not> startswith ''daily_2'' ''daily_1'' \<and>
   ''daily_2'' \<notin> set [''daily_1'']"
  using results_start_with_snapname
    [of "scenario_params (PStr ''100'') PNone (Some ''daily_1'') 0" "''daily_1''" True
        "scenario_connect (scenario_snapshots 1000000)" "fixed_clock 1000000"
        "\<lparr>changed = False, msg = None, results = Some [''daily_1'']\<rparr>" "[''daily_1'']"]
  by (simp add: main_def get_proxmox_snapshotlist_def resolve_vmid_def main_loop_body_def
        scenario_connect_def scenario_proxmox_def scenario_snapshots_def scenario_params_def
        fixed_clock_def startswith_def)

text \<open>
  C5. Every run that ends in \<open>exit_json\<close> reports \<open>changed = False\<close>, and such a run
  ends in one of three ways: the identifier could not be settled, the fetch gave
  nothing, or the filtered names are returned.
\<close>

theorem changed_always_false:
  assumes "(main has ctor c p :: 'e outcome) = ExitJson r"
  shows "changed r = False \<and>
         (r = \<lparr>changed = False, msg = Some ''Vmid could not be fetched'', results = None\<rparr> \<or>
          r = \<lparr>changed = False, msg = Some ''Snapshots could not be fetched'',
                results = None\<rparr> \<or>
          (\<exists>res. r = \<lparr>changed = False, msg = None, results = Some res\<rparr>))"
  using main_exit_cases [OF assms]
  by (auto simp: vmid_not_fetched_def snapshots_not_fetched_def)

theorem changed_always_false_witness:
  "main True (scenario_connect (scenario_snapshots 1000000)) (fixed_clock 1000000)
      (scenario_params PNone PNone None 0)
     = ExitJson \<lparr>changed = False, msg = Some ''Vmid could not be fetched'', results = None\<rparr> \<and>
   main True (scenario_connect []) (fixed_clock 1000000)
      (scenario_params PNone (PStr ''web01'') None 0)
     = ExitJson \<lparr>changed = False, msg = Some ''Snapshots could not be fetched'',
                  results = None\<rparr> \<and>
   main True (scenario_connect (scenario_snapshots 1000000)) (fixed_clock 1000000)
      (scenario_params PNone (PStr ''web01'') None 2)
     = ExitJson \<lparr>changed = False, msg = None, results = Some [''daily_1'']\<rparr> \<and>
   changed \<lparr>changed = False, msg = None, results = Some [''daily_1'']\<rparr> = False"
  using changed_always_false
    [of True "scenario_connect (scenario_snapshots 1000000)" "fixed_clock 1000000"
        "scenario_params PNone (PStr ''web01'') None 2"
        "\<lparr>changed = False, msg = None, results = Some [''daily_1'']\<rparr>"]
  by (simp add: main_def get_proxmox_snapshotlist_def resolve_vmid_def main_loop_body_def
        scenario_connect_def scenario_proxmox_def scenario_snapshots_def scenario_params_def
        fixed_clock_def vmid_not_fetched_def snapshots_not_fetched_def)

text \<open>
  C7. When the identifier is settled, the instance is found and the fetch returns
  \<open>None\<close> or the empty list, the run ends before the loop in \<open>exit_json\<close> with
  \<open>changed = False\<close>, no results and the message \<open>"Snapshots could not be fetched"\<close>:
  the shape of the exit for an identifier that could not be settled, with another
  message. Nothing is raised.
\<close>

theorem empty_fetch_soft_exit:
  assumes "ctor p = Inr api"
    and "resolve_vmid api (hostname p) (vmid p) = Inr v"
    and "get_vm api v = Inr vm"
    and "snapshot_get api vm v = Inr None \<or> snapshot_get api vm v = Inr (Some [])"
  shows "main True ctor c p
           = ExitJson \<lparr>changed = False, msg = Some ''Snapshots could not be fetched'',
                        results = None\<rparr> \<and>
         get_proxmox_snapshotlist ctor p (hostname p) (vmid p)
           = Inl (ExitJson snapshots_not_fetched) \<and>
         changed snapshots_not_fetched = changed vmid_not_fetched \<and>
         results snapshots_not_fetched = results vmid_not_fetched \<and>
         msg snapshots_not_fetched \<noteq> msg vmid_not_fetched"
proof -
  have "get_proxmox_snapshotlist ctor p (hostname p) (vmid p)
          = Inl (ExitJson snapshots_not_fetched)"
    using assms by (auto simp: get_proxmox_snapshotlist_def)
  then show ?thesis
    by (simp add: main_def snapshots_not_fetched_def vmid_not_fetched_def)
qed

theorem empty_fetch_soft_exit_witness:
  "scenario_connect [] (scenario_params PNone (PStr ''web01'') None 0)
     = Inr (scenario_proxmox []) \<and>
   resolve_vmid (scenario_proxmox []) (PStr ''web01'') PNone = Inr (PInt 100) \<and>
   get_vm (scenario_proxmox []) (PInt 100) = Inr 100 \<and>
   snapshot_get (scenario_proxmox []) 100 (PInt 100) = Inr (Some []) \<and>
   main True (scenario_connect []) (fixed_clock 1000000)
      (scenario_params PNone (PStr ''web01'') None 0)
     = ExitJson \<lparr>changed = False, msg = Some ''Snapshots could not be fetched'',
                  results = None\<rparr>"
  using empty_fetch_soft_exit
    [of "scenario_connect []" "scenario_params PNone (PStr ''web01'') None 0"
        "scenario_proxmox []" "PInt 100" 100 "fixed_clock 1000000"]
  by (simp add: resolve_vmid_def scenario_connect_def scenario_proxmox_def
        scenario_params_def)

text \<open>
  C8. Scenario A: on the list \<open>current\<close> (taken now), \<open>daily_1\<close> (three days old) and
  \<open>daily_2\<close> (one day old), read at the time \<open>now\<close> with \<open>older_than = 2\<close> and no
  \<open>snapname\<close>, the filtering pass returns exactly \<open>["daily_1"]\<close>.
\<close>

theorem scenario_A_results:
  "(main_loop (fixed_clock now) None 2 0
      [\<lparr>name = Some ''current'', snaptime = Some now\<rparr>,
       \<lparr>name = Some ''daily_1'', snaptime = Some (now - 3 * 86400)\<rparr>,
       \<lparr>name = Some ''daily_2'', snaptime = Some (now - 1 * 86400)\<rparr>] []
      :: 'e outcome + string list) = Inr [''daily_1''] \<and>
   main True (scenario_connect (scenario_snapshots now)) (fixed_clock now)
      (scenario_params (PStr ''100'') h None 2)
     = ExitJson \<lparr>changed = False, msg = None, results = Some [''daily_1'']\<rparr>"
  by (simp add: main_def get_proxmox_snapshotlist_def resolve_vmid_def main_loop_body_def
        scenario_connect_def scenario_proxmox_def scenario_snapshots_def scenario_params_def
        fixed_clock_def)



text \<open>
  C10. When the \<open>vmid\<close> parameter is given (truthy), the \<open>hostname\<close> parameter has no
  effect: two runs that differ in \<open>hostname\<close> only, and whose API clients answer alike
  for that \<open>vmid\<close>, end alike. The clients may answer \<open>get_vmid\<close> in any way: it is not
  called.
\<close>

theorem hostname_ignored_when_vmid_given:
  assumes "truthy (vmid p)"
    and "same_responses_for (vmid p) (ctor p) (ctor' (p\<lparr>hostname := h'\<rparr>))"
  shows "(main has ctor c p :: 'e outcome) = main has ctor' c (p\<lparr>hostname := h'\<rparr>)"
proof (cases "ctor p")
  case (Inl e)
  with assms(2) have "ctor' (p\<lparr>hostname := h'\<rparr>) = Inl e"
    by (auto simp: same_responses_for_def split: sum.splits)
  with Inl show ?thesis
    by (simp add: main_def get_proxmox_snapshotlist_def)
next
  case (Inr a)
  with assms(2) obtain a' where
    a': "ctor' (p\<lparr>hostname := h'\<rparr>) = Inr a'" and
    vm: "get_vm a (vmid p) = get_vm a' (vmid p)" and
    fetch: "\<And>vm. get_vm a (vmid p) = Inr vm
              \<Longrightarrow> snapshot_get a vm (vmid p) = snapshot_get a' vm (vmid p)"
    by (auto simp: same_responses_for_def split: sum.splits)
  have "get_proxmox_snapshotlist ctor p (hostname p) (vmid p)
          = get_proxmox_snapshotlist ctor' (p\<lparr>hostname := h'\<rparr>) h' (vmid p)"
  proof (cases "get_vm a (vmid p)")
    case (Inl e)
    with vm have "get_vm a' (vmid p) = Inl e" by simp
    with Inl Inr a' assms(1) show ?thesis
      by (simp add: get_proxmox_snapshotlist_def resolve_vmid_def)
  next
    case found: (Inr vm')
    with vm have "get_vm a' (vmid p) = Inr vm'" by simp
    with found Inr a' fetch [OF found] assms(1) show ?thesis
      by (simp add: get_proxmox_snapshotlist_def resolve_vmid_def)
  qed
  then show ?thesis
    by (simp add: main_def cong: sum.case_cong)
qed

theorem hostname_ignored_when_vmid_given_witness:
  "truthy (vmid (scenario_params (PStr ''100'') (PStr ''web01'') None 2)) \<and>
   same_responses_for (vmid (scenario_params (PStr ''100'') (PStr ''web01'') None 2))
     (scenario_connect (scenario_snapshots 1000000)
        (scenario_params (PStr ''100'') (PStr ''web01'') None 2))
     (scenario_connect (scenario_snapshots 1000000)
        ((scenario_params (PStr ''100'') (PStr ''web01'') None 2)
           \<lparr>hostname := PStr ''ghost''\<rparr>)) \<and>
   main True (scenario_connect (scenario_snapshots 1000000)) (fixed_clock 1000000)
      (scenario_params (PStr ''100'') (PStr ''web01'') None 2)
     = main True (scenario_connect (scenario_snapshots 1000000)) (fixed_clock 1000000)
         ((scenario_params (PStr ''100'') (PStr ''web01'') None 2)
            \<lparr>hostname := PStr ''ghost''\<rparr>)"
proof -
  let ?p = "scenario_params (PStr ''100'') (PStr ''web01'') None 2"
  let ?ctor = "scenario_connect (scenario_snapshots 1000000)"
  have t: "truthy (vmid ?p)"
    by (simp add: scenario_params_def)
  have s: "same_responses_for (vmid ?p) (?ctor ?p) (?ctor (?p\<lparr>hostname := PStr ''ghost''\<rparr>))"
    by (simp add: same_responses_for_def scenario_connect_def scenario_proxmox_def
          scenario_params_def)
  from hostname_ignored_when_vmid_given
    [where p = ?p and ctor = ?ctor and ctor' = ?ctor and h' = "PStr ''ghost''" and has = True
       and c = "fixed_clock 1000000"] t s
  show ?thesis by simp
qed




text \<open>
  C3, as the module has it. When neither a \<open>vmid\<close> nor a \<open>hostname\<close> is given (both
  falsy) and the API client is built, the run ends at line 103 in \<open>exit_json\<close> with
  \<open>changed = False\<close>, the message \<open>"Vmid could not be fetched"\<close> and no results; nothing
  is raised.
\<close>

theorem unresolved_identifier_soft_exit:
  assumes "ctor p = Inr api" and "\<not> truthy (vmid p)" and "\<not> truthy (hostname p)"
  shows "main True ctor c p
           = ExitJson \<lparr>changed = False, msg = Some ''Vmid could not be fetched'',
                        results = None\<rparr>"
  using assms
  by (simp add: main_def get_proxmox_snapshotlist_def resolve_vmid_def vmid_not_fetched_def)

theorem unresolved_identifier_soft_exit_witness:
  "scenario_connect (scenario_snapshots 1000000) (scenario_params PNone (PStr []) None 0)
     = Inr (scenario_proxmox (scenario_snapshots 1000000)) \<and>
   \<not> truthy (vmid (scenario_params PNone (PStr []) None 0)) \<and>
   \<not> truthy (hostname (scenario_params PNone (PStr []) None 0)) \<and>
   main True (scenario_connect (scenario_snapshots 1000000)) (fixed_clock 1000000)
      (scenario_params PNone (PStr []) None 0)
     = ExitJson \<lparr>changed = False, msg = Some ''Vmid could not be fetched'', results = None\<rparr>"
  using unresolved_identifier_soft_exit
    [of "scenario_connect (scenario_snapshots 1000000)"
        "scenario_params PNone (PStr []) None 0"
        "scenario_proxmox (scenario_snapshots 1000000)" "fixed_clock 1000000"]
  by (simp add: scenario_connect_def scenario_params_def)

text \<open>
  C3, as the claim states it, fails. With no \<open>vmid\<close>, the hostname \<open>ghost\<close> and a name
  resolution that returns \<open>None\<close>, the run does not stop after line 101: \<open>get_vm\<close> is
  called with \<open>None\<close>, and what it raises ends the run.
\<close>

theorem unresolved_hostname_counterexample:
  "\<not> truthy (vmid (scenario_params PNone (PStr ''ghost'') None 0)) \<and>
   truthy (hostname (scenario_params PNone (PStr ''ghost'') None 0)) \<and>
   get_vmid (scenario_proxmox (scenario_snapshots 1000000)) (PStr ''ghost'') = Inr PNone \<and>
   \<not> truthy PNone \<and>
   main True (scenario_connect (scenario_snapshots 1000000)) (fixed_clock 1000000)
      (scenario_params PNone (PStr ''ghost'') None 0)
     = Raised ''no such vm''"
  by (simp add: main_def get_proxmox_snapshotlist_def resolve_vmid_def
        scenario_connect_def scenario_proxmox_def scenario_params_def)

end
